theory Spec2Isabelle
  imports Main
begin

section \<open>Go strings\<close>

text \<open>
  A Go \<open>string\<close> is a sequence of bytes; it is modelled as a \<open>string\<close> (a list of
  8-bit \<open>char\<close>s).  The functions of package \<open>strings\<close> that the program calls are
  written out on bytes below, apart from \<open>strings.ToLower\<close>, whose Unicode case tables
  are not reproduced: it is a parameter of the model (field \<open>ToLower\<close> of \<open>libs\<close>).
\<close>

definition HasPrefix :: "string \<Rightarrow> string \<Rightarrow> bool" where
  "HasPrefix s p = (take (length p) s = p)"

fun Contains :: "string \<Rightarrow> string \<Rightarrow> bool" where
  "Contains [] sub = (sub = [])"
| "Contains (c # cs) sub = (HasPrefix (c # cs) sub \<or> Contains cs sub)"

text \<open>
  \<open>IndexByte s b i\<close> scans \<open>s\<close> from its head, which stands at position \<open>i\<close>, and
  returns the position of the first byte equal to \<open>b\<close>.  It is the loop
  \<open>for i := 0; i < len(model); i++ { if model[i] == '/' ... }\<close> of \<open>ExtractProtocol\<close>,
  and \<open>strings.Index(model, "/")\<close> of \<open>Chat\<close> (\<open>None\<close> for the result \<open>-1\<close>).
\<close>

fun IndexByte :: "string \<Rightarrow> char \<Rightarrow> nat \<Rightarrow> nat option" where
  "IndexByte [] b i = None"
| "IndexByte (c # cs) b i = (if c = b then Some i else IndexByte cs b (Suc i))"

text \<open>\<open>strings.TrimRight(s, "/")\<close>: every trailing \<open>/\<close> is removed.\<close>

definition TrimRightSlash :: "string \<Rightarrow> string" where
  "TrimRightSlash s = rev (dropWhile (\<lambda>c. c = CHR ''/'') (rev s))"

text \<open>
  \<open>strings.TrimSpace\<close> removes the white space runes of Unicode from both ends of the
  UTF-8 text.  Each such rune has exactly one valid encoding, and Go decodes an invalid
  byte as U+FFFD, which is not white space; so the runes removed at either end are exactly
  the byte sequences listed in \<open>spaceRunes\<close>: U+0009 to U+000D, U+0020, U+0085, U+00A0,
  U+1680, U+2000 to U+200A, U+2028, U+2029, U+202F, U+205F and U+3000.
\<close>

definition spaceRunes :: "string list" where
  "spaceRunes =
    [[CHR 0x09], [CHR 0x0A], [CHR 0x0B], [CHR 0x0C], [CHR 0x0D], [CHR 0x20],
     [CHR 0xC2, CHR 0x85], [CHR 0xC2, CHR 0xA0],
     [CHR 0xE1, CHR 0x9A, CHR 0x80],
     [CHR 0xE2, CHR 0x80, CHR 0x80], [CHR 0xE2, CHR 0x80, CHR 0x81],
     [CHR 0xE2, CHR 0x80, CHR 0x82], [CHR 0xE2, CHR 0x80, CHR 0x83],
     [CHR 0xE2, CHR 0x80, CHR 0x84], [CHR 0xE2, CHR 0x80, CHR 0x85],
     [CHR 0xE2, CHR 0x80, CHR 0x86], [CHR 0xE2, CHR 0x80, CHR 0x87],
     [CHR 0xE2, CHR 0x80, CHR 0x88], [CHR 0xE2, CHR 0x80, CHR 0x89],
     [CHR 0xE2, CHR 0x80, CHR 0x8A],
     [CHR 0xE2, CHR 0x80, CHR 0xA8], [CHR 0xE2, CHR 0x80, CHR 0xA9],
     [CHR 0xE2, CHR 0x80, CHR 0xAF], [CHR 0xE2, CHR 0x81, CHR 0x9F],
     [CHR 0xE3, CHR 0x80, CHR 0x80]]"

text \<open>The number of bytes of the white space rune at the head of \<open>s\<close>; 0 when there is none.\<close>

definition leadingSpace :: "string list \<Rightarrow> string \<Rightarrow> nat" where
  "leadingSpace runes s =
     (case List.find (\<lambda>r. HasPrefix s r) runes of None \<Rightarrow> 0 | Some r \<Rightarrow> length r)"

function TrimLeftRunes :: "string list \<Rightarrow> string \<Rightarrow> string" where
  "TrimLeftRunes runes s =
     (if leadingSpace runes s = 0 then s
      else TrimLeftRunes runes (drop (leadingSpace runes s) s))"
  by pat_completeness auto

lemma leadingSpace_le: "leadingSpace runes s \<le> length s"
  unfolding leadingSpace_def HasPrefix_def
  by (auto split: option.splits simp: find_Some_iff) (metis length_take min.cobounded1)

termination TrimLeftRunes
proof (relation "measure (\<lambda>(runes, s). length s)")
  show "wf (measure (\<lambda>(runes, s). length s))" by simp
next
  fix runes :: "string list" and s :: string
  assume "leadingSpace runes s \<noteq> 0"
  moreover have "leadingSpace runes s \<le> length s" by (rule leadingSpace_le)
  ultimately have "length (drop (leadingSpace runes s) s) < length s" by simp
  then show "((runes, drop (leadingSpace runes s) s), (runes, s)) \<in> measure (\<lambda>(runes, s). length s)"
    by simp
qed

declare TrimLeftRunes.simps [simp del]

definition TrimSpace :: "string \<Rightarrow> string" where
  "TrimSpace s =
     rev (TrimLeftRunes (map rev spaceRunes) (rev (TrimLeftRunes spaceRunes s)))"

section \<open>Protocol identifier parser (\<open>ExtractProtocol\<close>)\<close>

definition ExtractProtocol :: "string \<Rightarrow> string \<times> string" where
  "ExtractProtocol model0 =
     (let model = TrimSpace model0 in
      case IndexByte model (CHR ''/'') 0 of
        Some i \<Rightarrow> (take i model, drop (i + 1) model)
      | None \<Rightarrow> (''openai'', model))"


section \<open>Data model\<close>

text \<open>
  Errors are values.  \<open>Err\<close> carries the message of an error that comes from outside
  the modelled code (the standard library, package \<open>auth\<close>, a provider constructor);
  every other constructor is one \<open>fmt.Errorf\<close> of the source, with the values it formats.
\<close>

datatype error =
    Err string
  | ConfigIsNil
  | ModelIsRequired
  | ApiKeyOrBaseRequired string
  | UnknownProtocol string string
  | LoadingAuthCredentials error
  | NoCredentialsFor string
  | FailedFromModelList error
  | NoAPIKeyForModel string
  | NoAPIKeyForProvider string
  | NoAPIBaseForProvider string
  | APIBaseNotConfigured
  | FailedToMarshal error
  | FailedToCreateRequest error
  | FailedToSend error
  | FailedToRead error
  | APIRequestFailed int string
  | FailedToUnmarshal error

text \<open>
  \<open>config.ProviderConfig\<close>, and \<open>config.ModelConfig\<close>, which has the same five fields
  and the two names of a route-table entry.
\<close>

record ProviderConfig =
  APIKey :: string
  APIBase :: string
  Proxy :: string
  AuthMethod :: string
  ConnectMode :: string

record ModelConfig = ProviderConfig +
  ModelName :: string
  Model :: string

record ProvidersConfig =
  Anthropic :: ProviderConfig
  OpenAI :: ProviderConfig
  OpenRouter :: ProviderConfig
  Groq :: ProviderConfig
  Zhipu :: ProviderConfig
  VLLM :: ProviderConfig
  Gemini :: ProviderConfig
  Nvidia :: ProviderConfig
  Ollama :: ProviderConfig
  Moonshot :: ProviderConfig
  ShengSuanYun :: ProviderConfig
  DeepSeek :: ProviderConfig
  Cerebras :: ProviderConfig
  VolcEngine :: ProviderConfig
  GitHubCopilot :: ProviderConfig
  Antigravity :: ProviderConfig
  Qwen :: ProviderConfig

text \<open>
  The part of \<open>config.Config\<close> that resolution reads: \<open>cfg.Agents.Defaults.Provider\<close>,
  \<open>cfg.Agents.Defaults.Model\<close>, \<open>cfg.ModelList\<close>, \<open>cfg.Providers\<close> and the result of
  \<open>cfg.WorkspacePath()\<close>.
\<close>

record Config =
  Agents_Defaults_Provider :: string
  Agents_Defaults_Model :: string
  ModelList :: "ModelConfig list"
  Providers :: ProvidersConfig
  WorkspacePath :: string

text \<open>
  Modelled from the spec: the type \<open>auth.AuthCredential\<close> is declared in package
  \<open>auth\<close>, which is not among the sources; its fields are those of section 3
  (AuthCredential) and those the sources read.  \<open>ExpiresAt\<close> is a time in seconds, 0 for
  the zero time.
\<close>

record AuthCredential =
  CredProvider :: string
  AccessToken :: string
  RefreshToken :: string
  ExpiresAt :: int
  AccountID :: string
  Email :: string
  ProjectID :: string
  CredAuthMethod :: string

text \<open>
  The adapters.  \<open>HTTPProvider\<close> is the struct of the source; of its \<open>httpClient\<close> the
  model keeps the proxy that \<open>NewHTTPProvider\<close> installs, if any.  The other adapters are
  built by constructors outside the sources and are kept as the constructor call with
  its arguments.
\<close>

record HTTPProvider =
  apiKey :: string
  apiBase :: string
  httpClient_Proxy :: "string option"

datatype TokenSource = ClaudeTokenSource | CodexTokenSource | CodexCliTokenSource

datatype LLMProvider =
    HTTP HTTPProvider
  | ClaudeProvider string
  | ClaudeProviderWithTokenSource string TokenSource
  | CodexProviderWithTokenSource string string TokenSource
  | ClaudeCliProvider string
  | CodexCliProvider string
  | GitHubCopilotProvider string string string
  | AntigravityProvider

text \<open>The models that \<open>providers.FetchAntigravityModels\<close> lists.\<close>

record AntigravityModel =
  ID :: string
  DisplayName :: string
  IsExhausted :: bool

section \<open>The environment\<close>

text \<open>
  What the modelled functions call and the sources do not contain is a parameter:
  \<^item> \<open>ToLower\<close> is \<open>strings.ToLower\<close>; \<open>url_Parse_ok p\<close> says that \<open>url.Parse(p)\<close>
    returns no error;
  \<^item> \<open>GetModelConfig\<close> is the method \<open>(*Config).GetModelConfig\<close>;
  \<^item> \<open>GetCredential\<close> and \<open>SetCredential\<close> are the functions of package \<open>auth\<close> on the
    credential store, whose state has the type \<open>'s\<close>; \<open>SetCredential\<close> returns the store
    after the call (its error is discarded by the only caller modelled);
  \<^item> \<open>NeedsRefresh\<close> is the method of \<open>AuthCredential\<close> (it reads the clock);
  \<^item> \<open>RefreshAccessToken\<close> is \<open>auth.RefreshAccessToken(cred, oauthCfg)\<close> at the fixed
    \<open>auth.GoogleAntigravityOAuthConfig()\<close>;
  \<^item> \<open>NewGitHubCopilotProvider_error\<close> is the error, if any, that
    \<open>NewGitHubCopilotProvider(apiBase, connectMode, model)\<close> returns;
  \<^item> \<open>FetchAntigravityModels\<close> is \<open>providers.FetchAntigravityModels(accessToken, projectID)\<close>,
    with the text of its error on the left.
\<close>

record libs =
  ToLower :: "string \<Rightarrow> string"
  url_Parse_ok :: "string \<Rightarrow> bool"

record 's env = libs +
  GetModelConfig :: "Config \<Rightarrow> string \<Rightarrow> error + ModelConfig"
  GetCredential :: "'s \<Rightarrow> string \<Rightarrow> error + AuthCredential option"
  SetCredential :: "'s \<Rightarrow> string \<Rightarrow> AuthCredential \<Rightarrow> 's"
  NeedsRefresh :: "AuthCredential \<Rightarrow> bool"
  RefreshAccessToken :: "AuthCredential \<Rightarrow> error + AuthCredential"
  NewGitHubCopilotProvider_error :: "string \<Rightarrow> string \<Rightarrow> string \<Rightarrow> error option"
  FetchAntigravityModels :: "string \<Rightarrow> string \<Rightarrow> string + AntigravityModel list"

section \<open>Building adapters\<close>

definition NewHTTPProvider :: "('a, 'b) env_scheme \<Rightarrow> string \<Rightarrow> string \<Rightarrow> string \<Rightarrow> HTTPProvider" where
  "NewHTTPProvider env key base proxy =
     \<lparr>apiKey = key,
      apiBase = TrimRightSlash base,
      httpClient_Proxy = (if proxy \<noteq> [] \<and> url_Parse_ok env proxy then Some proxy else None)\<rparr>"

definition createClaudeAuthProvider :: "('s, 'b) env_scheme \<Rightarrow> 's \<Rightarrow> error + LLMProvider" where
  "createClaudeAuthProvider env store =
     (case GetCredential env store ''anthropic'' of
        Inl err \<Rightarrow> Inl (LoadingAuthCredentials err)
      | Inr None \<Rightarrow> Inl (NoCredentialsFor ''anthropic'')
      | Inr (Some cred) \<Rightarrow>
          Inr (ClaudeProviderWithTokenSource (AccessToken cred) ClaudeTokenSource))"

definition createCodexAuthProvider :: "('s, 'b) env_scheme \<Rightarrow> 's \<Rightarrow> error + LLMProvider" where
  "createCodexAuthProvider env store =
     (case GetCredential env store ''openai'' of
        Inl err \<Rightarrow> Inl (LoadingAuthCredentials err)
      | Inr None \<Rightarrow> Inl (NoCredentialsFor ''openai'')
      | Inr (Some cred) \<Rightarrow>
          Inr (CodexProviderWithTokenSource (AccessToken cred) (AccountID cred) CodexTokenSource))"

definition getDefaultAPIBase :: "string \<Rightarrow> string" where
  "getDefaultAPIBase protocol =
     (if protocol = ''openai'' then ''https://api.openai.com/v1''
      else if protocol = ''openrouter'' then ''https://openrouter.ai/api/v1''
      else if protocol = ''groq'' then ''https://api.groq.com/openai/v1''
      else if protocol = ''zhipu'' then ''https://open.bigmodel.cn/api/paas/v4''
      else if protocol = ''gemini'' then ''https://generativelanguage.googleapis.com/v1beta''
      else if protocol = ''nvidia'' then ''https://integrate.api.nvidia.com/v1''
      else if protocol = ''ollama'' then ''http://localhost:11434/v1''
      else if protocol = ''moonshot'' then ''https://api.moonshot.cn/v1''
      else if protocol = ''shengsuanyun'' then ''https://router.shengsuanyun.com/api/v1''
      else if protocol = ''deepseek'' then ''https://api.deepseek.com/v1''
      else if protocol = ''cerebras'' then ''https://api.cerebras.ai/v1''
      else if protocol = ''volcengine'' then ''https://ark.cn-beijing.volces.com/api/v3''
      else if protocol = ''qwen'' then ''https://dashscope.aliyuncs.com/compatible-mode/v1''
      else [])"

text \<open>The protocols of the first \<open>case\<close> of \<open>CreateProviderFromConfig\<close>.\<close>

definition httpProtocols :: "string list" where
  "httpProtocols =
     [''openai'', ''openrouter'', ''groq'', ''zhipu'', ''gemini'', ''nvidia'',
      ''ollama'', ''moonshot'', ''shengsuanyun'', ''deepseek'', ''cerebras'',
      ''volcengine'', ''vllm'', ''qwen'']"

section \<open>Resolution from a route-table entry (\<open>CreateProviderFromConfig\<close>)\<close>

text \<open>The argument is a pointer in the source: \<open>None\<close> is \<open>nil\<close>.\<close>

definition CreateProviderFromConfig ::
  "('s, 'b) env_scheme \<Rightarrow> ModelConfig option \<Rightarrow> error + LLMProvider \<times> string" where
  "CreateProviderFromConfig env cfgp =
     (case cfgp of
        None \<Rightarrow> Inl ConfigIsNil
      | Some cfg \<Rightarrow>
          if Model cfg = [] then Inl ModelIsRequired
          else
            let protocol = fst (ExtractProtocol (Model cfg));
                modelID = snd (ExtractProtocol (Model cfg))
            in
            if protocol \<in> set httpProtocols then
              (if APIKey cfg = [] \<and> APIBase cfg = [] then Inl (ApiKeyOrBaseRequired protocol)
               else
                 Inr (HTTP (NewHTTPProvider env (APIKey cfg)
                             (if APIBase cfg = [] then getDefaultAPIBase protocol else APIBase cfg)
                             (Proxy cfg)),
                      modelID))
            else if protocol = ''anthropic'' then
              (if AuthMethod cfg = ''oauth'' \<or> AuthMethod cfg = ''token'' then
                 Inr (ClaudeProvider (APIKey cfg), modelID)
               else
                 Inr (HTTP (NewHTTPProvider env (APIKey cfg)
                             (if APIBase cfg = [] then ''https://api.anthropic.com/v1'' else APIBase cfg)
                             (Proxy cfg)),
                      modelID))
            else if protocol = ''antigravity'' then Inr (AntigravityProvider, modelID)
            else if protocol = ''claude-cli'' \<or> protocol = ''claudecli'' then
              Inr (ClaudeCliProvider ''.'', modelID)
            else if protocol = ''codex-cli'' \<or> protocol = ''codexcli'' then
              Inr (CodexCliProvider ''.'', modelID)
            else if protocol = ''github-copilot'' \<or> protocol = ''copilot'' then
              (let base = (if APIBase cfg = [] then ''localhost:4321'' else APIBase cfg);
                   connectMode = (if ConnectMode cfg = [] then ''grpc'' else ConnectMode cfg)
               in case NewGitHubCopilotProvider_error env base connectMode modelID of
                    Some err \<Rightarrow> Inl err
                  | None \<Rightarrow> Inr (GitHubCopilotProvider base connectMode modelID, modelID))
            else Inl (UnknownProtocol protocol (Model cfg)))"

section \<open>Resolution from the configuration (\<open>CreateProvider\<close>)\<close>

text \<open>
  The body of \<open>CreateProvider\<close> after the route table assigns \<open>apiKey\<close>, \<open>apiBase\<close>,
  \<open>proxy\<close> and \<open>model\<close> in two \<open>switch\<close> statements, some of whose branches return.
  A \<open>selection\<close> is the state after such a statement: \<open>Done r\<close> when a branch
  returned \<open>r\<close>, and \<open>Pending apiKey apiBase proxy model\<close> otherwise.  What the
  function prints (the deprecation warning, the two lines of the Ollama branch) is left
  out.
\<close>

datatype selection =
    Done "error + LLMProvider \<times> string"
  | Pending string string string string

text \<open>
  The branch that most explicit families share:
  \<open>if p.APIKey != "" { apiKey = p.APIKey; apiBase = p.APIBase; if apiBase == "" { apiBase = d } }\<close>.
\<close>

definition keyed :: "ProviderConfig \<Rightarrow> string \<Rightarrow> string \<Rightarrow> selection" where
  "keyed p d model =
     (if APIKey p \<noteq> [] then Pending (APIKey p) (if APIBase p = [] then d else APIBase p) [] model
      else Pending [] [] [] model)"

text \<open>The \<open>switch providerName\<close> (the explicitly configured provider).\<close>

definition explicitProvider :: "('s, 'b) env_scheme \<Rightarrow> 's \<Rightarrow> Config \<Rightarrow> selection" where
  "explicitProvider env store cfg =
     (let model = Agents_Defaults_Model cfg;
          providerName = ToLower env (Agents_Defaults_Provider cfg);
          P = Providers cfg
      in
      if providerName = [] then Pending [] [] [] model
      else if providerName = ''groq'' then keyed (Groq P) ''https://api.groq.com/openai/v1'' model
      else if providerName = ''openai'' \<or> providerName = ''gpt'' then
        (if APIKey (OpenAI P) \<noteq> [] \<or> AuthMethod (OpenAI P) \<noteq> [] then
           (if AuthMethod (OpenAI P) = ''codex-cli'' then
              Done (Inr (CodexProviderWithTokenSource [] [] CodexCliTokenSource, model))
            else if AuthMethod (OpenAI P) = ''oauth'' \<or> AuthMethod (OpenAI P) = ''token'' then
              Done (case createCodexAuthProvider env store of
                      Inl err \<Rightarrow> Inl err | Inr provider \<Rightarrow> Inr (provider, model))
            else Pending (APIKey (OpenAI P))
                   (if APIBase (OpenAI P) = [] then ''https://api.openai.com/v1'' else APIBase (OpenAI P))
                   [] model)
         else Pending [] [] [] model)
      else if providerName = ''anthropic'' \<or> providerName = ''claude'' then
        (if APIKey (Anthropic P) \<noteq> [] \<or> AuthMethod (Anthropic P) \<noteq> [] then
           (if AuthMethod (Anthropic P) = ''oauth'' \<or> AuthMethod (Anthropic P) = ''token'' then
              Done (case createClaudeAuthProvider env store of
                      Inl err \<Rightarrow> Inl err | Inr provider \<Rightarrow> Inr (provider, model))
            else Pending (APIKey (Anthropic P))
                   (if APIBase (Anthropic P) = [] then ''https://api.anthropic.com/v1''
                    else APIBase (Anthropic P))
                   [] model)
         else Pending [] [] [] model)
      else if providerName = ''openrouter'' then
        keyed (OpenRouter P) ''https://openrouter.ai/api/v1'' model
      else if providerName = ''zhipu'' \<or> providerName = ''glm'' then
        keyed (Zhipu P) ''https://open.bigmodel.cn/api/paas/v4'' model
      else if providerName = ''gemini'' \<or> providerName = ''google'' then
        keyed (Gemini P) ''https://generativelanguage.googleapis.com/v1beta'' model
      else if providerName = ''vllm'' then
        (if APIBase (VLLM P) \<noteq> [] then Pending (APIKey (VLLM P)) (APIBase (VLLM P)) [] model
         else Pending [] [] [] model)
      else if providerName = ''shengsuanyun'' then
        keyed (ShengSuanYun P) ''https://router.shengsuanyun.com/api/v1'' model
      else if providerName = ''claude-cli'' \<or> providerName = ''claudecode''
              \<or> providerName = ''claude-code'' then
        Done (Inr (ClaudeCliProvider (if WorkspacePath cfg = [] then ''.'' else WorkspacePath cfg),
                   model))
      else if providerName = ''codex-cli'' \<or> providerName = ''codex-code'' then
        Done (Inr (CodexCliProvider (if WorkspacePath cfg = [] then ''.'' else WorkspacePath cfg),
                   model))
      else if providerName = ''cerebras'' then keyed (Cerebras P) ''https://api.cerebras.ai/v1'' model
      else if providerName = ''deepseek'' then
        (if APIKey (DeepSeek P) \<noteq> [] then
           Pending (APIKey (DeepSeek P))
             (if APIBase (DeepSeek P) = [] then ''https://api.deepseek.com/v1'' else APIBase (DeepSeek P))
             []
             (if model \<noteq> ''deepseek-chat'' \<and> model \<noteq> ''deepseek-reasoner'' then ''deepseek-chat''
              else model)
         else Pending [] [] [] model)
      else if providerName = ''qwen'' then
        keyed (Qwen P) ''https://dashscope.aliyuncs.com/compatible-mode/v1'' model
      else if providerName = ''github_copilot'' \<or> providerName = ''copilot'' then
        (let base = (if APIBase (GitHubCopilot P) \<noteq> [] then APIBase (GitHubCopilot P)
                     else ''localhost:4321'')
         in Done (case NewGitHubCopilotProvider_error env base (ConnectMode (GitHubCopilot P)) model of
                    Some err \<Rightarrow> Inl err
                  | None \<Rightarrow>
                      Inr (GitHubCopilotProvider base (ConnectMode (GitHubCopilot P)) model, model)))
      else if providerName = ''antigravity'' \<or> providerName = ''google-antigravity'' then
        Done (Inr (AntigravityProvider, model))
      else if providerName = ''volcengine'' \<or> providerName = ''doubao'' then
        keyed (VolcEngine P) ''https://ark.cn-beijing.volces.com/api/v3'' model
      else Pending [] [] [] model)"

text \<open>
  The branch that most cases of the second \<open>switch\<close> share:
  \<open>apiKey = p.APIKey; apiBase = p.APIBase; proxy = p.Proxy; if apiBase == "" { apiBase = d }\<close>.
\<close>

definition detected :: "ProviderConfig \<Rightarrow> string \<Rightarrow> string \<Rightarrow> selection" where
  "detected p d model =
     Pending (APIKey p) (if APIBase p = [] then d else APIBase p) (Proxy p) model"

text \<open>
  The \<open>switch\<close> that detects the provider from the model name.  \<open>lowerModel\<close> is computed
  by the source from the configured model, before the first \<open>switch\<close>; \<open>model\<close> is the
  variable as that \<open>switch\<close> left it.
\<close>

definition detectFromModel :: "('s, 'b) env_scheme \<Rightarrow> 's \<Rightarrow> Config \<Rightarrow> string \<Rightarrow> selection" where
  "detectFromModel env store cfg model =
     (let lowerModel = ToLower env (Agents_Defaults_Model cfg);
          P = Providers cfg
      in
      if (Contains lowerModel ''kimi'' \<or> Contains lowerModel ''moonshot''
            \<or> HasPrefix model ''moonshot/'') \<and> APIKey (Moonshot P) \<noteq> [] then
        detected (Moonshot P) ''https://api.moonshot.cn/v1'' model
      else if HasPrefix model ''openrouter/'' \<or> HasPrefix model ''anthropic/''
                \<or> HasPrefix model ''openai/'' \<or> HasPrefix model ''meta-llama/''
                \<or> HasPrefix model ''deepseek/'' \<or> HasPrefix model ''google/'' then
        Pending (APIKey (OpenRouter P))
          (if APIBase (OpenRouter P) \<noteq> [] then APIBase (OpenRouter P)
           else ''https://openrouter.ai/api/v1'')
          (Proxy (OpenRouter P)) model
      else if (Contains lowerModel ''claude'' \<or> HasPrefix model ''anthropic/'')
                \<and> (APIKey (Anthropic P) \<noteq> [] \<or> AuthMethod (Anthropic P) \<noteq> []) then
        (if AuthMethod (Anthropic P) = ''oauth'' \<or> AuthMethod (Anthropic P) = ''token'' then
           Done (case createClaudeAuthProvider env store of
                   Inl err \<Rightarrow> Inl err | Inr provider \<Rightarrow> Inr (provider, model))
         else detected (Anthropic P) ''https://api.anthropic.com/v1'' model)
      else if (Contains lowerModel ''gpt'' \<or> HasPrefix model ''openai/'')
                \<and> (APIKey (OpenAI P) \<noteq> [] \<or> AuthMethod (OpenAI P) \<noteq> []) then
        (if AuthMethod (OpenAI P) = ''oauth'' \<or> AuthMethod (OpenAI P) = ''token'' then
           Done (case createCodexAuthProvider env store of
                   Inl err \<Rightarrow> Inl err | Inr provider \<Rightarrow> Inr (provider, model))
         else detected (OpenAI P) ''https://api.openai.com/v1'' model)
      else if (Contains lowerModel ''gemini'' \<or> HasPrefix model ''google/'')
                \<and> APIKey (Gemini P) \<noteq> [] then
        detected (Gemini P) ''https://generativelanguage.googleapis.com/v1beta'' model
      else if (Contains lowerModel ''glm'' \<or> Contains lowerModel ''zhipu''
                 \<or> Contains lowerModel ''zai'') \<and> APIKey (Zhipu P) \<noteq> [] then
        detected (Zhipu P) ''https://open.bigmodel.cn/api/paas/v4'' model
      else if (Contains lowerModel ''groq'' \<or> HasPrefix model ''groq/'')
                \<and> APIKey (Groq P) \<noteq> [] then
        detected (Groq P) ''https://api.groq.com/openai/v1'' model
      else if (Contains lowerModel ''qwen'' \<or> HasPrefix model ''qwen/'')
                \<and> APIKey (Qwen P) \<noteq> [] then
        detected (Qwen P) ''https://dashscope.aliyuncs.com/compatible-mode/v1'' model
      else if (Contains lowerModel ''nvidia'' \<or> HasPrefix model ''nvidia/'')
                \<and> APIKey (Nvidia P) \<noteq> [] then
        detected (Nvidia P) ''https://integrate.api.nvidia.com/v1'' model
      else if (Contains lowerModel ''cerebras'' \<or> HasPrefix model ''cerebras/'')
                \<and> APIKey (Cerebras P) \<noteq> [] then
        detected (Cerebras P) ''https://api.cerebras.ai/v1'' model
      else if (Contains lowerModel ''ollama'' \<or> HasPrefix model ''ollama/'')
                \<and> APIKey (Ollama P) \<noteq> [] then
        detected (Ollama P) ''http://localhost:11434/v1'' model
      else if (Contains lowerModel ''doubao'' \<or> HasPrefix lowerModel ''doubao''
                 \<or> Contains lowerModel ''volcengine'') \<and> APIKey (VolcEngine P) \<noteq> [] then
        detected (VolcEngine P) ''https://ark.cn-beijing.volces.com/api/v3'' model
      else if APIBase (VLLM P) \<noteq> [] then
        Pending (APIKey (VLLM P)) (APIBase (VLLM P)) (Proxy (VLLM P)) model
      else if APIKey (OpenRouter P) \<noteq> [] then
        Pending (APIKey (OpenRouter P))
          (if APIBase (OpenRouter P) \<noteq> [] then APIBase (OpenRouter P)
           else ''https://openrouter.ai/api/v1'')
          (Proxy (OpenRouter P)) model
      else Done (Inl (NoAPIKeyForModel model)))"

text \<open>
  The two \<open>switch\<close> statements in sequence: the second runs only when the first left
  both \<open>apiKey\<close> and \<open>apiBase\<close> empty.
\<close>

definition selectProvider :: "('s, 'b) env_scheme \<Rightarrow> 's \<Rightarrow> Config \<Rightarrow> selection" where
  "selectProvider env store cfg =
     (case explicitProvider env store cfg of
        Done r \<Rightarrow> Done r
      | Pending key base proxy model \<Rightarrow>
          if key = [] \<and> base = [] then detectFromModel env store cfg model
          else Pending key base proxy model)"

text \<open>The end of \<open>CreateProvider\<close>: the two checks and the HTTP adapter.\<close>

definition finishProvider :: "('s, 'b) env_scheme \<Rightarrow> selection \<Rightarrow> error + LLMProvider \<times> string" where
  "finishProvider env sel =
     (case sel of
        Done r \<Rightarrow> r
      | Pending key base proxy model \<Rightarrow>
          if key = [] \<and> \<not> HasPrefix model ''bedrock/'' then Inl (NoAPIKeyForProvider model)
          else if base = [] then Inl (NoAPIBaseForProvider model)
          else Inr (HTTP (NewHTTPProvider env key base proxy), model))"

text \<open>
  The route table comes first: when \<open>cfg.ModelList\<close> is not empty and
  \<open>cfg.GetModelConfig(model)\<close> returns no error, the entry it returns decides, and an
  error of \<open>CreateProviderFromConfig\<close> is returned wrapped.
\<close>

definition routeEntry :: "('s, 'b) env_scheme \<Rightarrow> Config \<Rightarrow> ModelConfig option" where
  "routeEntry env cfg =
     (if ModelList cfg \<noteq> [] then
        (case GetModelConfig env cfg (Agents_Defaults_Model cfg) of
           Inl err \<Rightarrow> None
         | Inr modelCfg \<Rightarrow> Some modelCfg)
      else None)"

definition CreateProvider :: "('s, 'b) env_scheme \<Rightarrow> 's \<Rightarrow> Config \<Rightarrow> error + LLMProvider \<times> string" where
  "CreateProvider env store cfg =
     (case routeEntry env cfg of
        Some modelCfg \<Rightarrow>
          (case CreateProviderFromConfig env (Some modelCfg) of
             Inl err \<Rightarrow> Inl (FailedFromModelList err)
           | Inr r \<Rightarrow> Inr r)
      | None \<Rightarrow> finishProvider env (selectProvider env store cfg))"

section \<open>The refresh of \<open>authModelsCmd\<close>\<close>

text \<open>
  The block \<open>if cred.NeedsRefresh() && cred.RefreshToken != "" { ... }\<close>: it returns the
  credential that the rest of the command uses, and the credential store after the block.
\<close>

definition refreshIfNeeded :: "('s, 'b) env_scheme \<Rightarrow> 's \<Rightarrow> AuthCredential \<Rightarrow> AuthCredential \<times> 's" where
  "refreshIfNeeded env store cred =
     (if NeedsRefresh env cred \<and> RefreshToken cred \<noteq> [] then
        (case RefreshAccessToken env cred of
           Inr refreshed \<Rightarrow> (refreshed, SetCredential env store ''google-antigravity'' refreshed)
         | Inl refreshErr \<Rightarrow> (cred, store))
      else (cred, store))"

text \<open>
  Standard output is the list of the lines written (each is followed by a line feed on
  the real stream).  The two marks are the UTF-8 bytes of U+2713 and U+2717.
\<close>

definition modelLine :: "AntigravityModel \<Rightarrow> string" where
  "modelLine m =
     ''  '' @ (if IsExhausted m then [CHR 0xE2, CHR 0x9C, CHR 0x97] @ '' (quota exhausted)''
              else [CHR 0xE2, CHR 0x9C, CHR 0x93])
       @ '' '' @ (if DisplayName m \<noteq> [] then ID m @ '' ('' @ DisplayName m @ '')'' else ID m)"

definition listModels :: "('s, 'b) env_scheme \<Rightarrow> AuthCredential \<Rightarrow> string list" where
  "listModels env cred =
     (if ProjectID cred = [] then [''No project ID stored. Try logging in again.'']
      else
        [''Fetching models for project: '' @ ProjectID cred, []] @
        (case FetchAntigravityModels env (AccessToken cred) (ProjectID cred) of
           Inl err \<Rightarrow> [''Error fetching models: '' @ err]
         | Inr models \<Rightarrow>
             if models = [] then [''No models available.'']
             else [''Available Antigravity Models:'', ''-----------------------------'']
                  @ map modelLine models))"

definition authModelsCmd :: "('s, 'b) env_scheme \<Rightarrow> 's \<Rightarrow> string list \<times> 's" where
  "authModelsCmd env store =
     (let notLoggedIn = [''Not logged in to Google Antigravity.'',
                         ''Run: picoclaw auth login --provider google-antigravity'']
      in case GetCredential env store ''google-antigravity'' of
           Inl err \<Rightarrow> (notLoggedIn, store)
         | Inr None \<Rightarrow> (notLoggedIn, store)
         | Inr (Some cred) \<Rightarrow>
             (listModels env (fst (refreshIfNeeded env store cred)),
              snd (refreshIfNeeded env store cred)))"

section \<open>The HTTP adapter (\<open>HTTPProvider.Chat\<close>)\<close>

text \<open>
  The request body is a \<open>map[string]interface{}\<close> in the source; the model has one
  optional field for each key the source may set.  The types of a message, of a tool
  definition and of the usage record are declared outside the sources and are type
  parameters; so is \<open>float64\<close> (\<open>'f\<close>), of which the code only passes values on.
\<close>

record ('m, 't, 'f) RequestBody =
  wire_model :: string
  wire_messages :: "'m list"
  wire_tools :: "'t list option"
  wire_tool_choice :: "string option"
  wire_max_tokens :: "int option"
  wire_max_completion_tokens :: "int option"
  wire_temperature :: "'f option"

text \<open>
  \<open>options\<close>: \<open>opt_max_tokens\<close> is \<open>Some n\<close> when \<open>options["max_tokens"]\<close> holds the \<open>int\<close>
  \<open>n\<close>, and \<open>opt_temperature\<close> is \<open>Some t\<close> when \<open>options["temperature"]\<close> holds the
  \<open>float64\<close> \<open>t\<close>.
\<close>

record 'f ChatOptions =
  opt_max_tokens :: "int option"
  opt_temperature :: "'f option"

record HTTPRequest =
  req_method :: string
  req_url :: string
  req_header :: "(string \<times> string) list"
  req_body :: string

text \<open>The response as \<open>json.Unmarshal\<close> decodes it into \<open>apiResponse\<close>.\<close>

record WireFunction =
  fn_name :: string
  fn_arguments :: string
  fn_thought_signature :: string

record WireToolCall =
  tc_id :: string
  tc_type :: string
  tc_function :: "WireFunction option"

record WireChoice =
  message_content :: string
  message_tool_calls :: "WireToolCall list"
  finish_reason :: string

record 'u APIResponse =
  choices :: "WireChoice list"
  usage :: "'u option"

datatype json =
    JNull | JBool bool | JNumber string | JString string
  | JArray "json list" | JObject "(string \<times> json) list"

record FunctionCall =
  FunctionCall_Name :: string
  FunctionCall_Arguments :: string
  FunctionCall_ThoughtSignature :: string

record ToolCall =
  ToolCall_ID :: string
  ToolCall_Type :: string
  ToolCall_Function :: "FunctionCall option"
  ToolCall_Name :: string
  ToolCall_Arguments :: "string \<rightharpoonup> json"

record 'u LLMResponse =
  Content :: string
  ToolCalls :: "ToolCall list"
  FinishReason :: string
  Usage :: "'u option"

text \<open>
  The calls that leave the program:
  \<^item> \<open>float64_1\<close> is the constant \<open>1.0\<close>;
  \<^item> \<open>json_Marshal\<close> is \<open>json.Marshal(requestBody)\<close>;
  \<^item> \<open>http_NewRequest_error url\<close> is the error, if any, of
    \<open>http.NewRequestWithContext(ctx, "POST", url, ...)\<close>;
  \<^item> \<open>http_Do\<close> is \<open>p.httpClient.Do(req)\<close>: an error, or the status code of the response
    with what \<open>io.ReadAll(resp.Body)\<close> returns;
  \<^item> \<open>json_Unmarshal\<close> is \<open>json.Unmarshal(body, &apiResponse)\<close>;
  \<^item> \<open>json_Unmarshal_arguments\<close> is \<open>json.Unmarshal([]byte(argsStr), &arguments)\<close>: the
    map as the call leaves it, and its error, if any.
\<close>

record ('m, 't, 'f, 'u) wire = libs +
  float64_1 :: 'f
  json_Marshal :: "('m, 't, 'f) RequestBody \<Rightarrow> error + string"
  http_NewRequest_error :: "string \<Rightarrow> error option"
  http_Do :: "HTTPProvider \<Rightarrow> HTTPRequest \<Rightarrow> error + int \<times> (error + string)"
  json_Unmarshal :: "string \<Rightarrow> error + 'u APIResponse"
  json_Unmarshal_arguments :: "string \<Rightarrow> (string \<rightharpoonup> json) \<times> error option"

text \<open>The provider prefixes that \<open>Chat\<close> strips from the model name.\<close>

definition stripProviderPrefix :: "string \<Rightarrow> string" where
  "stripProviderPrefix model =
     (case IndexByte model (CHR ''/'') 0 of
        None \<Rightarrow> model
      | Some idx \<Rightarrow>
          let prefix = take idx model in
          if prefix = ''moonshot'' \<or> prefix = ''nvidia'' \<or> prefix = ''groq''
             \<or> prefix = ''ollama'' \<or> prefix = ''qwen'' \<or> prefix = ''cerebras''
          then drop (idx + 1) model else model)"

definition requestBody ::
  "('m, 't, 'f, 'u, 'b) wire_scheme \<Rightarrow> 'm list \<Rightarrow> 't list \<Rightarrow> string \<Rightarrow> 'f ChatOptions
     \<Rightarrow> ('m, 't, 'f) RequestBody" where
  "requestBody env messages tools model0 options =
     (let model = stripProviderPrefix model0;
          lowerModel = ToLower env model;
          completion = (Contains lowerModel ''glm'' \<or> Contains lowerModel ''o1'')
      in
      \<lparr>wire_model = model,
       wire_messages = messages,
       wire_tools = (if tools \<noteq> [] then Some tools else None),
       wire_tool_choice = (if tools \<noteq> [] then Some ''auto'' else None),
       wire_max_tokens = (if completion then None else opt_max_tokens options),
       wire_max_completion_tokens = (if completion then opt_max_tokens options else None),
       wire_temperature =
         (case opt_temperature options of
            None \<Rightarrow> None
          | Some temperature \<Rightarrow>
              if Contains lowerModel ''kimi'' \<and> Contains lowerModel ''k2'' then Some (float64_1 env)
              else Some temperature)\<rparr>)"

definition convertToolCall :: "('m, 't, 'f, 'u, 'b) wire_scheme \<Rightarrow> WireToolCall \<Rightarrow> ToolCall" where
  "convertToolCall env tc =
     (case tc_function tc of
        None \<Rightarrow>
          \<lparr>ToolCall_ID = tc_id tc, ToolCall_Type = tc_type tc,
           ToolCall_Function =
             Some \<lparr>FunctionCall_Name = [], FunctionCall_Arguments = [],
                   FunctionCall_ThoughtSignature = []\<rparr>,
           ToolCall_Name = [], ToolCall_Arguments = Map.empty\<rparr>
      | Some f \<Rightarrow>
          \<lparr>ToolCall_ID = tc_id tc, ToolCall_Type = tc_type tc,
           ToolCall_Function =
             Some \<lparr>FunctionCall_Name = fn_name f, FunctionCall_Arguments = fn_arguments f,
                   FunctionCall_ThoughtSignature = fn_thought_signature f\<rparr>,
           ToolCall_Name = fn_name f,
           ToolCall_Arguments =
             (if fn_arguments f \<noteq> [] then
                (case json_Unmarshal_arguments env (fn_arguments f) of
                   (arguments, None) \<Rightarrow> arguments
                 | (arguments, Some err) \<Rightarrow> arguments(''raw'' \<mapsto> JString (fn_arguments f)))
              else Map.empty)\<rparr>)"

definition parseResponse :: "('m, 't, 'f, 'u, 'b) wire_scheme \<Rightarrow> string \<Rightarrow> error + 'u LLMResponse" where
  "parseResponse env body =
     (case json_Unmarshal env body of
        Inl err \<Rightarrow> Inl (FailedToUnmarshal err)
      | Inr apiResponse \<Rightarrow>
          (case choices apiResponse of
             [] \<Rightarrow> Inr \<lparr>Content = [], ToolCalls = [], FinishReason = ''stop'', Usage = None\<rparr>
           | choice # rest \<Rightarrow>
               Inr \<lparr>Content = message_content choice,
                    ToolCalls = map (convertToolCall env) (message_tool_calls choice),
                    FinishReason = finish_reason choice,
                    Usage = usage apiResponse\<rparr>))"

definition chatRequest :: "HTTPProvider \<Rightarrow> string \<Rightarrow> HTTPRequest" where
  "chatRequest p jsonData =
     \<lparr>req_method = ''POST'',
      req_url = apiBase p @ ''/chat/completions'',
      req_header =
        (''Content-Type'', ''application/json'')
          # (if apiKey p \<noteq> [] then [(''Authorization'', ''Bearer '' @ apiKey p)] else []),
      req_body = jsonData\<rparr>"

definition Chat ::
  "('m, 't, 'f, 'u, 'b) wire_scheme \<Rightarrow> HTTPProvider \<Rightarrow> 'm list \<Rightarrow> 't list \<Rightarrow> string
     \<Rightarrow> 'f ChatOptions \<Rightarrow> error + 'u LLMResponse" where
  "Chat env p messages tools model options =
     (if apiBase p = [] then Inl APIBaseNotConfigured
      else
        case json_Marshal env (requestBody env messages tools model options) of
          Inl err \<Rightarrow> Inl (FailedToMarshal err)
        | Inr jsonData \<Rightarrow>
            (case http_NewRequest_error env (apiBase p @ ''/chat/completions'') of
               Some err \<Rightarrow> Inl (FailedToCreateRequest err)
             | None \<Rightarrow>
                 (case http_Do env p (chatRequest p jsonData) of
                    Inl err \<Rightarrow> Inl (FailedToSend err)
                  | Inr (statusCode, Inl err) \<Rightarrow> Inl (FailedToRead err)
                  | Inr (statusCode, Inr body) \<Rightarrow>
                      if statusCode \<noteq> 200 then Inl (APIRequestFailed statusCode body)
                      else parseResponse env body)))"

section \<open>A concrete environment\<close>

text \<open>
  The properties below hold in every environment.  To run the functions on concrete
  configurations, this section fixes one: the credential store is a map from provider
  names to credentials, \<open>ToLower\<close> lowers the letters A to Z, every proxy URL parses,
  the clock stands at second 1000 and the refresh window is 300 seconds, and every
  token refresh fails.
\<close>

definition asciiLower :: "string \<Rightarrow> string" where
  "asciiLower s =
     map (\<lambda>c. if c \<in> set ''ABCDEFGHIJKLMNOPQRSTUVWXYZ'' then char_of (of_char c + (32::nat)) else c) s"

text \<open>
  Modelled from the spec: \<open>(*Config).GetModelConfig\<close> is not among the sources.  Section
  4.2, step 1: the route table "contains an entry whose logical name or qualified model
  string matches \<open>requestedModel\<close>"; the table is ordered, and the first such entry is
  taken.
\<close>

definition GetModelConfig_spec :: "Config \<Rightarrow> string \<Rightarrow> error + ModelConfig" where
  "GetModelConfig_spec cfg name =
     (case List.find (\<lambda>e. ModelName e = name \<or> Model e = name) (ModelList cfg) of
        None \<Rightarrow> Inl (Err ''model not found in model_list'')
      | Some e \<Rightarrow> Inr e)"

definition exampleEnv :: "(string \<rightharpoonup> AuthCredential) env" where
  "exampleEnv =
     \<lparr>ToLower = asciiLower,
      url_Parse_ok = (\<lambda>proxy. True),
      GetModelConfig = GetModelConfig_spec,
      GetCredential = (\<lambda>store name. Inr (store name)),
      SetCredential = (\<lambda>store name cred. store(name \<mapsto> cred)),
      NeedsRefresh = (\<lambda>cred. ExpiresAt cred \<noteq> 0 \<and> ExpiresAt cred - 1000 < 300),
      RefreshAccessToken = (\<lambda>cred. Inl (Err ''connection refused'')),
      NewGitHubCopilotProvider_error = (\<lambda>base connectMode model. None),
      FetchAntigravityModels = (\<lambda>accessToken projectID. Inr [])\<rparr>"

definition noProvider :: ProviderConfig where
  "noProvider = \<lparr>APIKey = [], APIBase = [], Proxy = [], AuthMethod = [], ConnectMode = []\<rparr>"

definition noProviders :: ProvidersConfig where
  "noProviders =
     \<lparr>Anthropic = noProvider, OpenAI = noProvider, OpenRouter = noProvider, Groq = noProvider,
      Zhipu = noProvider, VLLM = noProvider, Gemini = noProvider, Nvidia = noProvider,
      Ollama = noProvider, Moonshot = noProvider, ShengSuanYun = noProvider,
      DeepSeek = noProvider, Cerebras = noProvider, VolcEngine = noProvider,
      GitHubCopilot = noProvider, Antigravity = noProvider, Qwen = noProvider\<rparr>"

text \<open>
  A wire environment: the server answers every request with the given status and body,
  and the body decodes to the given response.
\<close>

definition exampleWire ::
  "int \<Rightarrow> string \<Rightarrow> unit APIResponse \<Rightarrow> (unit, unit, int, unit) wire" where
  "exampleWire status body response =
     \<lparr>ToLower = asciiLower,
      url_Parse_ok = (\<lambda>proxy. True),
      float64_1 = 1,
      json_Marshal = (\<lambda>requestBody. Inr (wire_model requestBody)),
      http_NewRequest_error = (\<lambda>url. None),
      http_Do = (\<lambda>p req. Inr (status, Inr body)),
      json_Unmarshal = (\<lambda>b. Inr response),
      json_Unmarshal_arguments = (\<lambda>argsStr. (Map.empty, None))\<rparr>"

definition exampleHTTP :: HTTPProvider where
  "exampleHTTP =
     \<lparr>apiKey = ''sk-1'', apiBase = ''https://api.groq.com/openai/v1'', httpClient_Proxy = None\<rparr>"

text \<open>A route-table entry, a configuration and a stored credential to run the functions on.\<close>

definition exampleRoute :: "string \<Rightarrow> string \<Rightarrow> string \<Rightarrow> string \<Rightarrow> ModelConfig" where
  "exampleRoute name model key authMethod =
     \<lparr>APIKey = key, APIBase = [], Proxy = [], AuthMethod = authMethod, ConnectMode = [],
      ModelName = name, Model = model\<rparr>"

definition exampleConfig :: "string \<Rightarrow> string \<Rightarrow> ModelConfig list \<Rightarrow> ProvidersConfig \<Rightarrow> Config" where
  "exampleConfig provider model routes providers =
     \<lparr>Agents_Defaults_Provider = provider, Agents_Defaults_Model = model, ModelList = routes,
      Providers = providers, WorkspacePath = []\<rparr>"

definition exampleCredential :: AuthCredential where
  "exampleCredential =
     \<lparr>CredProvider = ''google-antigravity'', AccessToken = ''at-1'', RefreshToken = ''rt-1'',
      ExpiresAt = 1120, AccountID = [], Email = [], ProjectID = ''project-1'',
      CredAuthMethod = ''oauth''\<rparr>"

section \<open>Properties of the protocol identifier parser\<close>

lemma IndexByte_None: "b \<notin> set s \<Longrightarrow> IndexByte s b i = None"
  by (induction s arbitrary: i) auto

lemma IndexByte_split:
  "b \<in> set s \<Longrightarrow> \<exists>p r. s = p @ b # r \<and> b \<notin> set p \<and> IndexByte s b i = Some (i + length p)"
proof (induction s arbitrary: i)
  case Nil
  then show ?case by simp
next
  case (Cons c cs)
  show ?case
  proof (cases "c = b")
    case True
    then have "c # cs = [] @ b # cs \<and> b \<notin> set []
        \<and> IndexByte (c # cs) b i = Some (i + length ([]::string))"
      by simp
    then show ?thesis by blast
  next
    case False
    with Cons.prems have "b \<in> set cs" by simp
    from Cons.IH[OF this, of "Suc i"] obtain p r where
      "cs = p @ b # r" "b \<notin> set p" "IndexByte cs b (Suc i) = Some (Suc i + length p)"
      by blast
    with False have "c # cs = (c # p) @ b # r \<and> b \<notin> set (c # p)
        \<and> IndexByte (c # cs) b i = Some (i + length (c # p))"
      by simp
    then show ?thesis by blast
  qed
qed

lemma leadingSpace_prefix:
  assumes "leadingSpace runes s \<noteq> 0"
  shows "take (leadingSpace runes s) s \<in> set runes"
proof (cases "List.find (\<lambda>r. HasPrefix s r) runes")
  case None
  with assms show ?thesis by (simp add: leadingSpace_def)
next
  case (Some r)
  then have "r \<in> set runes" "HasPrefix s r"
    by (auto simp: find_Some_iff)
  moreover from Some have "leadingSpace runes s = length r"
    by (simp add: leadingSpace_def)
  ultimately show ?thesis by (simp add: HasPrefix_def)
qed

text \<open>Trimming removes only bytes of the runes it is given.\<close>

lemma TrimLeftRunes_mem:
  "\<forall>r \<in> set runes. b \<notin> set r \<Longrightarrow> b \<in> set (TrimLeftRunes runes s) \<longleftrightarrow> b \<in> set s"
proof (induction runes s rule: TrimLeftRunes.induct)
  case (1 runes s)
  show ?case
  proof (cases "leadingSpace runes s = 0")
    case True
    then show ?thesis by (subst TrimLeftRunes.simps) simp
  next
    case False
    let ?n = "leadingSpace runes s"
    from False have "take ?n s \<in> set runes" by (rule leadingSpace_prefix)
    with "1.prems" have "b \<notin> set (take ?n s)" by blast
    moreover have "set s = set (take ?n s) \<union> set (drop ?n s)"
      by (metis append_take_drop_id set_append)
    ultimately have "b \<in> set (drop ?n s) \<longleftrightarrow> b \<in> set s" by blast
    moreover have "b \<in> set (TrimLeftRunes runes (drop ?n s)) \<longleftrightarrow> b \<in> set (drop ?n s)"
      using "1.IH"[OF False "1.prems"] .
    moreover have "TrimLeftRunes runes s = TrimLeftRunes runes (drop ?n s)"
      using False by (subst TrimLeftRunes.simps) simp
    ultimately show ?thesis by simp
  qed
qed

lemma slash_not_space: "\<forall>r \<in> set spaceRunes. CHR ''/'' \<notin> set r"
  by (simp add: spaceRunes_def)

lemma TrimSpace_slash: "CHR ''/'' \<in> set (TrimSpace s) \<longleftrightarrow> CHR ''/'' \<in> set s"
proof -
  have "\<forall>r \<in> set (map rev spaceRunes). CHR ''/'' \<notin> set r"
    using slash_not_space by simp
  then have "CHR ''/'' \<in> set (TrimSpace s) \<longleftrightarrow> CHR ''/'' \<in> set (TrimLeftRunes spaceRunes s)"
    unfolding TrimSpace_def by (simp add: TrimLeftRunes_mem)
  then show ?thesis
    using slash_not_space by (simp add: TrimLeftRunes_mem)
qed

text \<open>
  C7, as the code has it.  \<open>ExtractProtocol\<close> trims the model string first and splits the
  trimmed string: the string has a separator exactly when its trimmed form has one; when
  the trimmed string is \<open>p\<close>, the first separator, and \<open>r\<close>, the protocol tag is \<open>p\<close>
  and the model id is \<open>r\<close>; when it has no separator, the tag is \<open>openai\<close> and the model
  id is the trimmed string.  The function is total: it has no failing branch, and every
  index it reads is below the length.
\<close>

theorem ExtractProtocol_splits_trimmed:
  "(CHR ''/'' \<in> set s \<longleftrightarrow> CHR ''/'' \<in> set (TrimSpace s))
   \<and> (\<forall>p r. TrimSpace s = p @ CHR ''/'' # r \<and> CHR ''/'' \<notin> set p \<longrightarrow> ExtractProtocol s = (p, r))
   \<and> (CHR ''/'' \<notin> set (TrimSpace s) \<longrightarrow> ExtractProtocol s = (''openai'', TrimSpace s))"
proof (intro conjI allI impI)
  show "CHR ''/'' \<in> set s \<longleftrightarrow> CHR ''/'' \<in> set (TrimSpace s)"
    by (simp add: TrimSpace_slash)
next
  fix p r
  assume a: "TrimSpace s = p @ CHR ''/'' # r \<and> CHR ''/'' \<notin> set p"
  then have "CHR ''/'' \<in> set (TrimSpace s)" by simp
  from IndexByte_split[OF this, of 0] obtain p' r' where
    *: "TrimSpace s = p' @ CHR ''/'' # r'" "CHR ''/'' \<notin> set p'"
       "IndexByte (TrimSpace s) (CHR ''/'') 0 = Some (length p')"
    by auto
  from a *(1,2) have "p' = p \<and> r' = r"
    by (simp add: append_eq_append_conv2 append_eq_Cons_conv Cons_eq_append_conv) auto
  moreover have "ExtractProtocol s = (p', r')"
    unfolding ExtractProtocol_def Let_def *(3) by (simp add: *(1))
  ultimately show "ExtractProtocol s = (p, r)" by simp
next
  assume "CHR ''/'' \<notin> set (TrimSpace s)"
  then show "ExtractProtocol s = (''openai'', TrimSpace s)"
    unfolding ExtractProtocol_def Let_def by (simp add: IndexByte_None)
qed

theorem ExtractProtocol_splits_trimmed_witness:
  "ExtractProtocol ''  anthropic/claude-3/x '' = (''anthropic'', ''claude-3/x'')
   \<and> ExtractProtocol '' gpt-4o  '' = (''openai'', ''gpt-4o'')"
proof -
  have t1: "TrimSpace ''  anthropic/claude-3/x '' = ''anthropic'' @ CHR ''/'' # ''claude-3/x''"
    by code_simp
  have t2: "TrimSpace '' gpt-4o  '' = ''gpt-4o''"
    by code_simp
  have "ExtractProtocol ''  anthropic/claude-3/x '' = (''anthropic'', ''claude-3/x'')"
    using ExtractProtocol_splits_trimmed[of "''  anthropic/claude-3/x ''"] t1 by simp
  moreover have "ExtractProtocol '' gpt-4o  '' = (''openai'', ''gpt-4o'')"
    using ExtractProtocol_splits_trimmed[of "'' gpt-4o  ''"] t2 by simp
  ultimately show ?thesis by simp
qed

text \<open>
  C7 as the claim states it fails on a string with a separator and a leading blank: the
  substring of \<open>'' a/b''\<close> before its first separator is \<open>'' a''\<close>, and the tag returned
  is \<open>''a''\<close>.
\<close>

theorem ExtractProtocol_untrimmed_counterexample:
  "ExtractProtocol '' a/b'' \<noteq> ('' a'', ''b'')"
  by code_simp

section \<open>Properties of the HTTP adapter\<close>

text \<open>The request body does not depend on the decoders of the environment.\<close>

lemma requestBody_decoder:
  "requestBody (env\<lparr>json_Unmarshal := (decode :: string \<Rightarrow> error + 'u APIResponse),
                   json_Unmarshal_arguments := decodeArgs\<rparr> :: ('m, 't, 'f, 'u, 'b) wire_scheme)
     messages tools model options = requestBody env messages tools model options"
  by (auto simp: requestBody_def Let_def split: option.splits)

text \<open>
  C5.  When the request has been sent and the response read, and the status code of the
  response is not a 2xx code, \<open>Chat\<close> returns the error that carries the status code and
  the body as it was read.  The result is the same whatever the two JSON decoders of the
  environment are: the body is not parsed.
\<close>

theorem Chat_non_2xx_fails:
  assumes "apiBase p \<noteq> []"
    and "json_Marshal (env :: ('m, 't, 'f, 'u, 'b) wire_scheme)
           (requestBody env messages tools model options) = Inr jsonData"
    and "http_NewRequest_error env (apiBase p @ ''/chat/completions'') = None"
    and "http_Do env p (chatRequest p jsonData) = Inr (statusCode, Inr body)"
    and "statusCode < 200 \<or> 300 \<le> statusCode"
  shows "Chat (env\<lparr>json_Unmarshal := (decode :: string \<Rightarrow> error + 'u APIResponse),
                   json_Unmarshal_arguments := decodeArgs\<rparr> :: ('m, 't, 'f, 'u, 'b) wire_scheme)
           p messages tools model options = Inl (APIRequestFailed statusCode body)"
  using assms by (auto simp: Chat_def requestBody_decoder)

theorem Chat_non_2xx_fails_witness:
  "Chat (exampleWire 503 ''unavailable'' \<lparr>choices = [], usage = None\<rparr>) exampleHTTP [] []
      ''groq/llama'' \<lparr>opt_max_tokens = None, opt_temperature = None\<rparr>
     = Inl (APIRequestFailed 503 ''unavailable'')"
  using Chat_non_2xx_fails[where p = exampleHTTP
      and env = "exampleWire 503 ''unavailable'' \<lparr>choices = [], usage = None\<rparr>"
      and messages = "[]" and tools = "[]" and model = "''groq/llama''"
      and options = "\<lparr>opt_max_tokens = None, opt_temperature = None\<rparr>"
      and jsonData = "''llama''" and statusCode = 503 and body = "''unavailable''"
      and decode = "\<lambda>b. Inr \<lparr>choices = [], usage = None\<rparr>"
      and decodeArgs = "\<lambda>argsStr. (Map.empty, None)"]
  by (simp add: exampleWire_def exampleHTTP_def requestBody_def stripProviderPrefix_def Let_def)

text \<open>
  C6.  For the model string \<open>groq/openai/gpt-oss-120b\<close> the field \<open>model\<close> of the request
  body is \<open>openai/gpt-oss-120b\<close>: the prefix \<open>groq\<close> and its separator are removed, and the
  rest is kept as it is.
\<close>

theorem Chat_groq_prefix_stripped:
  "wire_model (requestBody env messages tools ''groq/openai/gpt-oss-120b'' options)
     = ''openai/gpt-oss-120b''"
  by (simp add: requestBody_def stripProviderPrefix_def Let_def)

text \<open>
  C8.  When the body of the response decodes to a response whose list of choices is
  empty, \<open>parseResponse\<close> returns a result, not an error: its content is empty and its
  finish reason is \<open>stop\<close>.  So does \<open>Chat\<close>, when the response with that body has the
  status 200.
\<close>

theorem empty_choices_is_stop:
  assumes "json_Unmarshal env body = Inr apiResponse" and "choices apiResponse = []"
  shows "parseResponse env body
           = Inr \<lparr>Content = [], ToolCalls = [], FinishReason = ''stop'', Usage = None\<rparr>
    \<and> (apiBase p \<noteq> []
        \<and> json_Marshal env (requestBody env messages tools model options) = Inr jsonData
        \<and> http_NewRequest_error env (apiBase p @ ''/chat/completions'') = None
        \<and> http_Do env p (chatRequest p jsonData) = Inr (200, Inr body)
      \<longrightarrow> Chat env p messages tools model options
            = Inr \<lparr>Content = [], ToolCalls = [], FinishReason = ''stop'', Usage = None\<rparr>)"
  using assms by (auto simp: Chat_def parseResponse_def)

theorem empty_choices_is_stop_witness:
  "Chat (exampleWire 200 ''{}'' \<lparr>choices = [], usage = Some ()\<rparr>) exampleHTTP [] []
      ''groq/llama'' \<lparr>opt_max_tokens = None, opt_temperature = None\<rparr>
     = Inr \<lparr>Content = [], ToolCalls = [], FinishReason = ''stop'', Usage = None\<rparr>"
  using empty_choices_is_stop[where env = "exampleWire 200 ''{}'' \<lparr>choices = [], usage = Some ()\<rparr>"
      and body = "''{}''" and apiResponse = "\<lparr>choices = [], usage = Some ()\<rparr>"
      and p = exampleHTTP and messages = "[]" and tools = "[]" and model = "''groq/llama''"
      and options = "\<lparr>opt_max_tokens = None, opt_temperature = None\<rparr>"
      and jsonData = "''llama''"]
  by (simp add: exampleWire_def exampleHTTP_def requestBody_def stripProviderPrefix_def Let_def)

section \<open>Properties of the resolution\<close>

text \<open>The adapters that the two \<open>switch\<close> statements return are not HTTP adapters, and they
  return the model as they received it; only the \<open>deepseek\<close> branch changes it.\<close>

lemma createClaudeAuthProvider_not_HTTP:
  "createClaudeAuthProvider env store = Inr p \<Longrightarrow> p \<noteq> HTTP h"
  by (auto simp: createClaudeAuthProvider_def split: sum.splits option.splits)

lemma createCodexAuthProvider_not_HTTP:
  "createCodexAuthProvider env store = Inr p \<Longrightarrow> p \<noteq> HTTP h"
  by (auto simp: createCodexAuthProvider_def split: sum.splits option.splits)

lemma explicitProvider_Done:
  assumes "explicitProvider env store cfg = Done (Inr (p, m))"
  shows "m = Agents_Defaults_Model cfg \<and> p \<noteq> HTTP h"
  using assms createClaudeAuthProvider_not_HTTP[of env store] createCodexAuthProvider_not_HTTP[of env store]
  unfolding explicitProvider_def Let_def keyed_def
  by (auto split: if_splits sum.splits option.splits)

lemma explicitProvider_Pending:
  assumes "explicitProvider env store cfg = Pending k b px m"
  shows "m = Agents_Defaults_Model cfg
       \<or> (ToLower env (Agents_Defaults_Provider cfg) = ''deepseek''
          \<and> APIKey (DeepSeek (Providers cfg)) \<noteq> [] \<and> m = ''deepseek-chat'' \<and> k \<noteq> [])"
  using assms unfolding explicitProvider_def Let_def keyed_def
  by (auto split: if_splits sum.splits option.splits)

lemma detectFromModel_Done:
  assumes "detectFromModel env store cfg m0 = Done (Inr (p, m))"
  shows "m = m0 \<and> p \<noteq> HTTP h"
  using assms createClaudeAuthProvider_not_HTTP[of env store] createCodexAuthProvider_not_HTTP[of env store]
  unfolding detectFromModel_def Let_def detected_def
  by (auto split: if_splits sum.splits option.splits)

lemma detectFromModel_Pending:
  assumes "detectFromModel env store cfg m0 = Pending k b px m"
  shows "m = m0"
  using assms unfolding detectFromModel_def Let_def detected_def
  by (auto split: if_splits sum.splits option.splits)


lemma routeEntry_None:
  "ModelList cfg = [] \<or> (\<exists>err. GetModelConfig env cfg (Agents_Defaults_Model cfg) = Inl err)
     \<Longrightarrow> routeEntry env cfg = None"
  by (auto simp: routeEntry_def)

text \<open>
  C2.  When the route table is not empty and \<open>GetModelConfig\<close> finds an entry for the
  requested model, \<open>CreateProvider\<close> returns what \<open>CreateProviderFromConfig\<close> builds
  from that entry (its error wrapped), so the family is the one of the entry's protocol
  tag; any two configurations and stores for which the lookup gives that entry resolve
  alike, whatever their legacy provider fields are.  The legacy fields decide only when
  the route table is empty or the lookup fails.
\<close>

theorem route_table_precedes_legacy:
  "(ModelList cfg \<noteq> [] \<and> GetModelConfig env cfg (Agents_Defaults_Model cfg) = Inr modelCfg \<longrightarrow>
      CreateProvider env store cfg
        = (case CreateProviderFromConfig env (Some modelCfg) of
             Inl err \<Rightarrow> Inl (FailedFromModelList err) | Inr r \<Rightarrow> Inr r)
      \<and> (\<forall>store' cfg'. ModelList cfg' \<noteq> []
             \<and> GetModelConfig env cfg' (Agents_Defaults_Model cfg') = Inr modelCfg
           \<longrightarrow> CreateProvider env store' cfg' = CreateProvider env store cfg))
   \<and> (ModelList cfg = [] \<or> (\<exists>err. GetModelConfig env cfg (Agents_Defaults_Model cfg) = Inl err) \<longrightarrow>
      CreateProvider env store cfg = finishProvider env (selectProvider env store cfg))"
  by (auto simp: CreateProvider_def routeEntry_def)

lemma ExtractProtocol_groq: "ExtractProtocol ''groq/llama-3'' = (''groq'', ''llama-3'')"
  by code_simp

lemma TrimRightSlash_groq: "TrimRightSlash ''https://api.groq.com/openai/v1'' = ''https://api.groq.com/openai/v1''"
  by code_simp

lemma TrimRightSlash_anthropic: "TrimRightSlash ''https://api.anthropic.com/v1'' = ''https://api.anthropic.com/v1''"
  by code_simp

lemma asciiLower_anthropic: "asciiLower ''Anthropic'' = ''anthropic''"
  by code_simp

theorem route_table_precedes_legacy_witness:
  "CreateProvider exampleEnv Map.empty
     (exampleConfig ''Anthropic'' ''fast'' [exampleRoute ''fast'' ''groq/llama-3'' ''gk'' []]
        (noProviders\<lparr>Anthropic := noProvider\<lparr>APIKey := ''ak''\<rparr>\<rparr>))
     = Inr (HTTP \<lparr>apiKey = ''gk'', apiBase = ''https://api.groq.com/openai/v1'',
                  httpClient_Proxy = None\<rparr>, ''llama-3'')
   \<and> CreateProvider exampleEnv Map.empty
     (exampleConfig ''Anthropic'' ''fast'' []
        (noProviders\<lparr>Anthropic := noProvider\<lparr>APIKey := ''ak''\<rparr>\<rparr>))
     = Inr (HTTP \<lparr>apiKey = ''ak'', apiBase = ''https://api.anthropic.com/v1'',
                  httpClient_Proxy = None\<rparr>, ''fast'')"
proof -
  let ?P = "noProviders\<lparr>Anthropic := noProvider\<lparr>APIKey := ''ak''\<rparr>\<rparr>"
  let ?e = "exampleRoute ''fast'' ''groq/llama-3'' ''gk'' []"
  have "CreateProvider exampleEnv Map.empty (exampleConfig ''Anthropic'' ''fast'' [?e] ?P)
      = Inr (HTTP \<lparr>apiKey = ''gk'', apiBase = ''https://api.groq.com/openai/v1'',
                  httpClient_Proxy = None\<rparr>, ''llama-3'')"
    using route_table_precedes_legacy[where env = exampleEnv and store = Map.empty
        and cfg = "exampleConfig ''Anthropic'' ''fast'' [?e] ?P" and modelCfg = ?e]
    by (simp add: exampleEnv_def exampleConfig_def exampleRoute_def GetModelConfig_spec_def
        CreateProviderFromConfig_def ExtractProtocol_groq httpProtocols_def getDefaultAPIBase_def
        NewHTTPProvider_def TrimRightSlash_groq)
  moreover have "CreateProvider exampleEnv Map.empty (exampleConfig ''Anthropic'' ''fast'' [] ?P)
      = Inr (HTTP \<lparr>apiKey = ''ak'', apiBase = ''https://api.anthropic.com/v1'',
                  httpClient_Proxy = None\<rparr>, ''fast'')"
    using route_table_precedes_legacy[where env = exampleEnv and store = Map.empty
        and cfg = "exampleConfig ''Anthropic'' ''fast'' [] ?P"]
    by (simp add: exampleEnv_def exampleConfig_def finishProvider_def selectProvider_def
        explicitProvider_def asciiLower_anthropic noProviders_def noProvider_def HasPrefix_def
        NewHTTPProvider_def TrimRightSlash_anthropic)
  ultimately show ?thesis by simp
qed

text \<open>
  C3.  When the entry found in the route table has the protocol tag of an HTTP family
  and both its API key and its base URL are empty, \<open>CreateProvider\<close> returns an error:
  the wrapped error of \<open>CreateProviderFromConfig\<close>.  The legacy provider step and the
  model-name heuristic are not run: the witness has a legacy OpenRouter key that
  resolves the same model once the route table is empty.
\<close>

theorem route_http_entry_without_key_and_base_fails:
  assumes "ModelList cfg \<noteq> []"
    and "GetModelConfig env cfg (Agents_Defaults_Model cfg) = Inr modelCfg"
    and "fst (ExtractProtocol (Model modelCfg)) \<in> set httpProtocols"
    and "APIKey modelCfg = []" and "APIBase modelCfg = []"
  shows "CreateProvider env store cfg
           = Inl (FailedFromModelList
                   (if Model modelCfg = [] then ModelIsRequired
                    else ApiKeyOrBaseRequired (fst (ExtractProtocol (Model modelCfg)))))"
  using assms by (simp add: CreateProvider_def routeEntry_def CreateProviderFromConfig_def)

lemma asciiLower_openrouter: "asciiLower ''openrouter'' = ''openrouter''"
  by code_simp

theorem route_http_entry_without_key_and_base_fails_witness:
  "CreateProvider exampleEnv Map.empty
     (exampleConfig ''openrouter'' ''fast'' [exampleRoute ''fast'' ''groq/llama-3'' [] []]
        (noProviders\<lparr>OpenRouter := noProvider\<lparr>APIKey := ''ok''\<rparr>\<rparr>))
     = Inl (FailedFromModelList (ApiKeyOrBaseRequired ''groq''))
   \<and> (\<exists>p. CreateProvider exampleEnv Map.empty
     (exampleConfig ''openrouter'' ''fast'' []
        (noProviders\<lparr>OpenRouter := noProvider\<lparr>APIKey := ''ok''\<rparr>\<rparr>)) = Inr (HTTP p, ''fast''))"
proof -
  let ?P = "noProviders\<lparr>OpenRouter := noProvider\<lparr>APIKey := ''ok''\<rparr>\<rparr>"
  let ?e = "exampleRoute ''fast'' ''groq/llama-3'' [] []"
  have "CreateProvider exampleEnv Map.empty (exampleConfig ''openrouter'' ''fast'' [?e] ?P)
      = Inl (FailedFromModelList (ApiKeyOrBaseRequired ''groq''))"
    using route_http_entry_without_key_and_base_fails[where env = exampleEnv and store = Map.empty
        and cfg = "exampleConfig ''openrouter'' ''fast'' [?e] ?P" and modelCfg = ?e]
    by (simp add: exampleEnv_def exampleConfig_def exampleRoute_def GetModelConfig_spec_def
        ExtractProtocol_groq httpProtocols_def)
  moreover have "\<exists>p. CreateProvider exampleEnv Map.empty (exampleConfig ''openrouter'' ''fast'' [] ?P)
      = Inr (HTTP p, ''fast'')"
    by (simp add: CreateProvider_def routeEntry_def exampleEnv_def exampleConfig_def finishProvider_def
        selectProvider_def explicitProvider_def keyed_def asciiLower_openrouter noProviders_def
        noProvider_def HasPrefix_def)
  ultimately show ?thesis by simp
qed


lemma selectProvider_Done:
  assumes "selectProvider env store cfg = Done (Inr (p, m))"
  shows "m = Agents_Defaults_Model cfg \<and> p \<noteq> HTTP h"
proof (cases "explicitProvider env store cfg")
  case (Done r)
  with assms show ?thesis
    using explicitProvider_Done[of env store cfg p m h] by (simp add: selectProvider_def)
next
  case (Pending k b px m0)
  show ?thesis
  proof (cases "k = [] \<and> b = []")
    case True
    with Pending have "m0 = Agents_Defaults_Model cfg"
      using explicitProvider_Pending[of env store cfg k b px m0] by auto
    moreover from assms Pending True have "detectFromModel env store cfg m0 = Done (Inr (p, m))"
      by (simp add: selectProvider_def)
    ultimately show ?thesis
      using detectFromModel_Done[of env store cfg m0 p m h] by simp
  next
    case False
    with assms Pending show ?thesis by (auto simp: selectProvider_def)
  qed
qed

lemma selectProvider_Pending:
  assumes "selectProvider env store cfg = Pending k b px m"
  shows "m = Agents_Defaults_Model cfg
       \<or> (ToLower env (Agents_Defaults_Provider cfg) = ''deepseek''
          \<and> APIKey (DeepSeek (Providers cfg)) \<noteq> [] \<and> m = ''deepseek-chat'')"
proof (cases "explicitProvider env store cfg")
  case (Done r)
  with assms show ?thesis by (simp add: selectProvider_def)
next
  case (Pending k0 b0 px0 m0)
  show ?thesis
  proof (cases "k0 = [] \<and> b0 = []")
    case True
    with Pending have "m0 = Agents_Defaults_Model cfg"
      using explicitProvider_Pending[of env store cfg k0 b0 px0 m0] by auto
    moreover from assms Pending True have "detectFromModel env store cfg m0 = Pending k b px m"
      by (simp add: selectProvider_def)
    ultimately show ?thesis
      using detectFromModel_Pending[of env store cfg m0 k b px m] by simp
  next
    case False
    with assms Pending have "m0 = m" by (auto simp: selectProvider_def)
    with Pending show ?thesis
      using explicitProvider_Pending[of env store cfg k0 b0 px0 m0] by auto
  qed
qed

lemma explicitProvider_deepseek:
  assumes "ToLower env (Agents_Defaults_Provider cfg) = ''deepseek''"
    and "APIKey (DeepSeek (Providers cfg)) \<noteq> []"
  shows "explicitProvider env store cfg
    = Pending (APIKey (DeepSeek (Providers cfg)))
        (if APIBase (DeepSeek (Providers cfg)) = [] then ''https://api.deepseek.com/v1''
         else APIBase (DeepSeek (Providers cfg)))
        []
        (if Agents_Defaults_Model cfg \<noteq> ''deepseek-chat''
            \<and> Agents_Defaults_Model cfg \<noteq> ''deepseek-reasoner'' then ''deepseek-chat''
         else Agents_Defaults_Model cfg)"
  using assms by (simp add: explicitProvider_def Let_def)

text \<open>
  C9.  Outside the route table (it is empty, or the lookup fails): when the provider
  name, lowered, is \<open>deepseek\<close>, the DeepSeek API key is not empty and the requested model
  is neither \<open>deepseek-chat\<close> nor \<open>deepseek-reasoner\<close>, \<open>CreateProvider\<close> returns the HTTP
  adapter with the model id \<open>deepseek-chat\<close>.  And whenever the model id returned
  differs from the requested one, that is the case: the provider is \<open>deepseek\<close> with a
  key, and the id returned is \<open>deepseek-chat\<close>.
\<close>

theorem deepseek_rewrites_model:
  assumes "ModelList cfg = [] \<or> (\<exists>err. GetModelConfig env cfg (Agents_Defaults_Model cfg) = Inl err)"
  shows "(ToLower env (Agents_Defaults_Provider cfg) = ''deepseek''
          \<and> APIKey (DeepSeek (Providers cfg)) \<noteq> []
          \<and> Agents_Defaults_Model cfg \<noteq> ''deepseek-chat''
          \<and> Agents_Defaults_Model cfg \<noteq> ''deepseek-reasoner''
        \<longrightarrow> CreateProvider env store cfg
              = Inr (HTTP (NewHTTPProvider env (APIKey (DeepSeek (Providers cfg)))
                            (if APIBase (DeepSeek (Providers cfg)) = []
                             then ''https://api.deepseek.com/v1''
                             else APIBase (DeepSeek (Providers cfg)))
                            []),
                     ''deepseek-chat''))
    \<and> (\<forall>p m. CreateProvider env store cfg = Inr (p, m) \<and> m \<noteq> Agents_Defaults_Model cfg
        \<longrightarrow> ToLower env (Agents_Defaults_Provider cfg) = ''deepseek''
            \<and> APIKey (DeepSeek (Providers cfg)) \<noteq> [] \<and> m = ''deepseek-chat'')"
proof (intro conjI allI impI)
  from assms have legacy: "CreateProvider env store cfg = finishProvider env (selectProvider env store cfg)"
    by (simp add: CreateProvider_def routeEntry_None)
  {
    assume a: "ToLower env (Agents_Defaults_Provider cfg) = ''deepseek''
          \<and> APIKey (DeepSeek (Providers cfg)) \<noteq> []
          \<and> Agents_Defaults_Model cfg \<noteq> ''deepseek-chat''
          \<and> Agents_Defaults_Model cfg \<noteq> ''deepseek-reasoner''"
    then show "CreateProvider env store cfg
              = Inr (HTTP (NewHTTPProvider env (APIKey (DeepSeek (Providers cfg)))
                            (if APIBase (DeepSeek (Providers cfg)) = []
                             then ''https://api.deepseek.com/v1''
                             else APIBase (DeepSeek (Providers cfg)))
                            []),
                     ''deepseek-chat'')"
      unfolding legacy
      by (simp add: selectProvider_def explicitProvider_deepseek finishProvider_def)
  }
  {
    fix p m
    assume r: "CreateProvider env store cfg = Inr (p, m) \<and> m \<noteq> Agents_Defaults_Model cfg"
    have "ToLower env (Agents_Defaults_Provider cfg) = ''deepseek''
            \<and> APIKey (DeepSeek (Providers cfg)) \<noteq> [] \<and> m = ''deepseek-chat''"
    proof (cases "selectProvider env store cfg")
      case (Done res)
      with r legacy have "selectProvider env store cfg = Done (Inr (p, m))"
        by (simp add: finishProvider_def)
      from selectProvider_Done[OF this] r show ?thesis by simp
    next
      case (Pending k b px m')
      with r legacy have "m' = m"
        by (auto simp: finishProvider_def split: if_splits)
      with Pending selectProvider_Pending[of env store cfg k b px m] r show ?thesis by simp
    qed
    then show "ToLower env (Agents_Defaults_Provider cfg) = ''deepseek''"
      and "APIKey (DeepSeek (Providers cfg)) \<noteq> []" and "m = ''deepseek-chat''"
      by simp_all
  }
qed

lemma asciiLower_deepseek: "asciiLower ''DeepSeek'' = ''deepseek''"
  by code_simp

lemma TrimRightSlash_deepseek: "TrimRightSlash ''https://api.deepseek.com/v1'' = ''https://api.deepseek.com/v1''"
  by code_simp

theorem deepseek_rewrites_model_witness:
  "CreateProvider exampleEnv Map.empty
     (exampleConfig ''DeepSeek'' ''gpt-4o'' [] (noProviders\<lparr>DeepSeek := noProvider\<lparr>APIKey := ''dk''\<rparr>\<rparr>))
     = Inr (HTTP \<lparr>apiKey = ''dk'', apiBase = ''https://api.deepseek.com/v1'',
                  httpClient_Proxy = None\<rparr>, ''deepseek-chat'')"
  using deepseek_rewrites_model[where env = exampleEnv and store = Map.empty
      and cfg = "exampleConfig ''DeepSeek'' ''gpt-4o'' []
                   (noProviders\<lparr>DeepSeek := noProvider\<lparr>APIKey := ''dk''\<rparr>\<rparr>)"]
  by (simp add: exampleEnv_def exampleConfig_def asciiLower_deepseek noProviders_def noProvider_def
      NewHTTPProvider_def TrimRightSlash_deepseek)

text \<open>
  C10.  Outside the route table: when the two selection steps end with an empty API key,
  \<open>CreateProvider\<close> fails with the error "no API key configured for provider", unless
  the model has the prefix \<open>bedrock/\<close>; then, with a base URL, it returns the HTTP adapter
  with the empty key.  Hence an HTTP adapter with an empty key is returned only for a
  model with that prefix.
\<close>

theorem empty_key_requires_bedrock:
  assumes "ModelList cfg = [] \<or> (\<exists>err. GetModelConfig env cfg (Agents_Defaults_Model cfg) = Inl err)"
  shows "(\<forall>base proxy model. selectProvider env store cfg = Pending [] base proxy model \<longrightarrow>
            (if HasPrefix model ''bedrock/''
             then base \<noteq> [] \<longrightarrow>
                  CreateProvider env store cfg = Inr (HTTP (NewHTTPProvider env [] base proxy), model)
             else CreateProvider env store cfg = Inl (NoAPIKeyForProvider model)))
    \<and> (\<forall>h m. CreateProvider env store cfg = Inr (HTTP h, m) \<and> apiKey h = []
          \<longrightarrow> HasPrefix m ''bedrock/'')"
proof (intro conjI allI impI)
  from assms have legacy: "CreateProvider env store cfg = finishProvider env (selectProvider env store cfg)"
    by (simp add: CreateProvider_def routeEntry_None)
  {
    fix base proxy model
    assume "selectProvider env store cfg = Pending [] base proxy model"
    then show "if HasPrefix model ''bedrock/''
             then base \<noteq> [] \<longrightarrow>
                  CreateProvider env store cfg = Inr (HTTP (NewHTTPProvider env [] base proxy), model)
             else CreateProvider env store cfg = Inl (NoAPIKeyForProvider model)"
      unfolding legacy by (simp add: finishProvider_def)
  }
  {
    fix h m
    assume r: "CreateProvider env store cfg = Inr (HTTP h, m) \<and> apiKey h = []"
    show "HasPrefix m ''bedrock/''"
    proof (cases "selectProvider env store cfg")
      case (Done res)
      with r legacy have "selectProvider env store cfg = Done (Inr (HTTP h, m))"
        by (simp add: finishProvider_def)
      from selectProvider_Done[OF this, of h] show ?thesis by simp
    next
      case (Pending k b px m')
      with r legacy show ?thesis
        by (auto simp: finishProvider_def NewHTTPProvider_def split: if_splits)
    qed
  }
qed

lemma asciiLower_vllm: "asciiLower ''vllm'' = ''vllm''"
  by code_simp

lemma TrimRightSlash_local: "TrimRightSlash ''http://localhost:8000/v1'' = ''http://localhost:8000/v1''"
  by code_simp

lemma selectProvider_vllm:
  "selectProvider exampleEnv Map.empty
     (exampleConfig ''vllm'' model [] (noProviders\<lparr>VLLM := noProvider\<lparr>APIBase := ''http://localhost:8000/v1''\<rparr>\<rparr>))
   = Pending [] ''http://localhost:8000/v1'' [] model"
  by (simp add: selectProvider_def explicitProvider_def exampleEnv_def exampleConfig_def
      asciiLower_vllm noProviders_def noProvider_def)

theorem empty_key_requires_bedrock_witness:
  "CreateProvider exampleEnv Map.empty
     (exampleConfig ''vllm'' ''bedrock/claude-3'' []
        (noProviders\<lparr>VLLM := noProvider\<lparr>APIBase := ''http://localhost:8000/v1''\<rparr>\<rparr>))
     = Inr (HTTP \<lparr>apiKey = [], apiBase = ''http://localhost:8000/v1'', httpClient_Proxy = None\<rparr>,
            ''bedrock/claude-3'')
   \<and> CreateProvider exampleEnv Map.empty
     (exampleConfig ''vllm'' ''llama-3'' []
        (noProviders\<lparr>VLLM := noProvider\<lparr>APIBase := ''http://localhost:8000/v1''\<rparr>\<rparr>))
     = Inl (NoAPIKeyForProvider ''llama-3'')"
proof -
  let ?P = "noProviders\<lparr>VLLM := noProvider\<lparr>APIBase := ''http://localhost:8000/v1''\<rparr>\<rparr>"
  have "CreateProvider exampleEnv Map.empty (exampleConfig ''vllm'' ''bedrock/claude-3'' [] ?P)
     = Inr (HTTP \<lparr>apiKey = [], apiBase = ''http://localhost:8000/v1'', httpClient_Proxy = None\<rparr>,
            ''bedrock/claude-3'')"
    using empty_key_requires_bedrock[where env = exampleEnv and store = Map.empty
        and cfg = "exampleConfig ''vllm'' ''bedrock/claude-3'' [] ?P"]
    by (simp add: selectProvider_vllm) (simp add: exampleConfig_def HasPrefix_def NewHTTPProvider_def TrimRightSlash_local)
  moreover have "CreateProvider exampleEnv Map.empty (exampleConfig ''vllm'' ''llama-3'' [] ?P)
     = Inl (NoAPIKeyForProvider ''llama-3'')"
    using empty_key_requires_bedrock[where env = exampleEnv and store = Map.empty
        and cfg = "exampleConfig ''vllm'' ''llama-3'' [] ?P"]
    by (simp add: selectProvider_vllm) (simp add: exampleConfig_def HasPrefix_def)
  ultimately show ?thesis by simp
qed


lemma route_anthropic_oauth_uses_entry_key:
  assumes "Model modelCfg \<noteq> []" and "fst (ExtractProtocol (Model modelCfg)) = ''anthropic''"
    and "AuthMethod modelCfg = ''oauth'' \<or> AuthMethod modelCfg = ''token''"
  shows "CreateProviderFromConfig env (Some modelCfg)
           = Inr (ClaudeProvider (APIKey modelCfg), snd (ExtractProtocol (Model modelCfg)))"
  using assms by (auto simp: CreateProviderFromConfig_def httpProtocols_def)

lemma ExtractProtocol_claude:
  "ExtractProtocol ''anthropic/claude-3-sonnet'' = (''anthropic'', ''claude-3-sonnet'')"
  by code_simp

lemma asciiLower_lower_anthropic: "asciiLower ''anthropic'' = ''anthropic''"
  by code_simp

text \<open>
  C1 does not hold for a route-table entry.  With the protocol tag \<open>anthropic\<close> and the
  auth method \<open>oauth\<close>, and with no stored credential, \<open>CreateProvider\<close> returns the
  adapter \<open>NewClaudeProvider(cfg.APIKey)\<close> built from the (empty) key of the entry and no
  error: the credential store is not read.  The legacy provider field with the same auth
  method and the same store fails with the error that tells to log in.
\<close>

theorem route_anthropic_oauth_without_credential:
  "CreateProvider exampleEnv Map.empty
     (exampleConfig [] ''claude'' [exampleRoute ''claude'' ''anthropic/claude-3-sonnet'' [] ''oauth'']
        noProviders)
     = Inr (ClaudeProvider [], ''claude-3-sonnet'')
   \<and> CreateProvider exampleEnv Map.empty
     (exampleConfig ''anthropic'' ''claude-3-sonnet'' []
        (noProviders\<lparr>Anthropic := noProvider\<lparr>AuthMethod := ''oauth''\<rparr>\<rparr>))
     = Inl (NoCredentialsFor ''anthropic'')"
proof -
  have "CreateProvider exampleEnv Map.empty
     (exampleConfig [] ''claude'' [exampleRoute ''claude'' ''anthropic/claude-3-sonnet'' [] ''oauth'']
        noProviders)
     = Inr (ClaudeProvider [], ''claude-3-sonnet'')"
    by (simp add: CreateProvider_def routeEntry_def exampleEnv_def exampleConfig_def
        exampleRoute_def GetModelConfig_spec_def CreateProviderFromConfig_def
        ExtractProtocol_claude httpProtocols_def)
  moreover have "CreateProvider exampleEnv Map.empty
     (exampleConfig ''anthropic'' ''claude-3-sonnet'' []
        (noProviders\<lparr>Anthropic := noProvider\<lparr>AuthMethod := ''oauth''\<rparr>\<rparr>))
     = Inl (NoCredentialsFor ''anthropic'')"
    by (simp add: CreateProvider_def routeEntry_def exampleEnv_def exampleConfig_def
        finishProvider_def selectProvider_def explicitProvider_def asciiLower_lower_anthropic
        noProviders_def noProvider_def createClaudeAuthProvider_def)
  ultimately show ?thesis by simp
qed

section \<open>Properties of the credential refresh\<close>

text \<open>
  C4.  For a credential that needs a refresh and has a refresh token, when
  \<open>RefreshAccessToken\<close> fails, the refresh block of \<open>authModelsCmd\<close> leaves the store as
  it was and goes on with the credential it loaded; the command then lists the models
  with that credential, and the store at its end is the store at its start.
\<close>

theorem refresh_failure_keeps_credential:
  assumes "NeedsRefresh env cred" and "RefreshToken cred \<noteq> []"
    and "RefreshAccessToken env cred = Inl refreshErr"
  shows "refreshIfNeeded env store cred = (cred, store)
    \<and> (GetCredential env store ''google-antigravity'' = Inr (Some cred)
        \<longrightarrow> authModelsCmd env store = (listModels env cred, store))"
  using assms by (simp add: refreshIfNeeded_def authModelsCmd_def)

theorem refresh_failure_keeps_credential_witness:
  "refreshIfNeeded exampleEnv [''google-antigravity'' \<mapsto> exampleCredential] exampleCredential
     = (exampleCredential, [''google-antigravity'' \<mapsto> exampleCredential])
   \<and> authModelsCmd exampleEnv [''google-antigravity'' \<mapsto> exampleCredential]
     = ([''Fetching models for project: project-1'', [], ''No models available.''],
        [''google-antigravity'' \<mapsto> exampleCredential])"
  using refresh_failure_keeps_credential[where env = exampleEnv and cred = exampleCredential
      and store = "[''google-antigravity'' \<mapsto> exampleCredential]"
      and refreshErr = "Err ''connection refused''"]
  by (simp add: exampleEnv_def exampleCredential_def listModels_def)

end
